theory Spec2Isabelle
  imports Complex_Main "HOL-Library.AList"
begin

section \<open>Python values\<close>

text \<open>
  A Python \<open>str\<close> is a sequence of Unicode code points, so \<open>len\<close> and slicing count
  code points. A string is modelled as the list of its code points; ASCII literals of the
  source are written through \<open>ascii\<close>, other literals as their code points.
\<close>

type_synonym pystr = "nat list"

definition ascii :: "string \<Rightarrow> pystr" where
  "ascii s = map of_char s"

text \<open>\<open>sep.join(parts)\<close>\<close>

fun join_str :: "pystr \<Rightarrow> pystr list \<Rightarrow> pystr" where
  "join_str sep [] = []"
| "join_str sep [p] = p"
| "join_str sep (p # q # ps) = p @ sep @ join_str sep (q # ps)"

text \<open>\<open>s.find(sep)\<close>: the index of the first occurrence, \<open>None\<close> for Python's \<open>-1\<close>.\<close>

fun find_str :: "pystr \<Rightarrow> pystr \<Rightarrow> nat option" where
  "find_str sep [] = (if sep = [] then Some 0 else None)"
| "find_str sep (c # cs) =
     (if take (length sep) (c # cs) = sep then Some 0
      else map_option Suc (find_str sep cs))"

text \<open>\<open>sep in s\<close>\<close>

definition contains_str :: "pystr \<Rightarrow> pystr \<Rightarrow> bool" where
  "contains_str sep s = (find_str sep s \<noteq> None)"

text \<open>
  \<open>s.split(sep)\<close> for a non-empty separator (the source only splits on literals): the
  pieces between the occurrences of \<open>sep\<close>, scanned from the left. \<open>skip\<close> counts the
  characters of a matched separator that are still to be passed over, \<open>piece\<close> holds the
  current piece in reverse.
\<close>

fun split_scan :: "pystr \<Rightarrow> nat \<Rightarrow> pystr \<Rightarrow> pystr \<Rightarrow> pystr list" where
  "split_scan sep skip piece [] = [rev piece]"
| "split_scan sep skip piece (c # cs) =
     (if 0 < skip then split_scan sep (skip - 1) piece cs
      else if take (length sep) (c # cs) = sep
           then rev piece # split_scan sep (length sep - 1) [] cs
           else split_scan sep 0 (c # piece) cs)"

definition split_str :: "pystr \<Rightarrow> pystr \<Rightarrow> pystr list" where
  "split_str sep s = split_scan sep 0 [] s"

text \<open>\<open>s.strip()\<close> removes the characters for which \<open>str.isspace\<close> holds at both ends.\<close>

definition isspace :: "nat \<Rightarrow> bool" where
  "isspace c = (c \<in> set [9, 10, 11, 12, 13, 28, 29, 30, 31, 32, 133, 160, 5760,
     8192, 8193, 8194, 8195, 8196, 8197, 8198, 8199, 8200, 8201, 8202,
     8232, 8233, 8239, 8287, 12288])"

definition strip :: "pystr \<Rightarrow> pystr" where
  "strip s = rev (dropWhile isspace (rev (dropWhile isspace s)))"

text \<open>
  A \<open>uuid.UUID\<close> is a 128-bit number; \<open>str(u)\<close> prints it as 32 lower-case hexadecimal
  digits in groups of 8-4-4-4-12 separated by dashes.
\<close>

datatype UUID = UUID (int_of: nat)

definition hex_digit :: "nat \<Rightarrow> nat" where
  "hex_digit d = (if d < 10 then 48 + d else 87 + d)"

fun hex_fixed :: "nat \<Rightarrow> nat \<Rightarrow> pystr" where
  "hex_fixed 0 v = []"
| "hex_fixed (Suc n) v = hex_fixed n (v div 16) @ [hex_digit (v mod 16)]"

definition str_UUID :: "UUID \<Rightarrow> pystr" where
  "str_UUID u =
     (let h = hex_fixed 32 (int_of u mod 2 ^ 128)
      in take 8 h @ [45] @ take 4 (drop 8 h) @ [45] @ take 4 (drop 12 h) @ [45]
         @ take 4 (drop 16 h) @ [45] @ drop 20 h)"

text \<open>
  Timestamps are naive UTC \<open>datetime\<close> values; only their order is used, so a timestamp
  is the number of microseconds since the epoch.
\<close>

type_synonym datetime = int

definition one_second :: int where
  "one_second = 1000000"

text \<open>
  The dynamically typed values (\<open>Dict[str, Any]\<close>) that travel through the intent
  pipeline. A dictionary keeps insertion order, so it is an association list;
  \<open>AList.update\<close> is \<open>d[k] = v\<close> (in place for a present key, appended otherwise).
\<close>

datatype pyval =
    PNone
  | PBool bool
  | PInt int
  | PStr pystr
  | PUUID UUID
  | PList "pyval list"
  | PDict "(pystr \<times> pyval) list"

type_synonym pydict = "(pystr \<times> pyval) list"

text \<open>Python truthiness, as \<open>if x:\<close> and \<open>not x\<close> test it.\<close>

fun truthy :: "pyval \<Rightarrow> bool" where
  "truthy PNone = False"
| "truthy (PBool b) = b"
| "truthy (PInt i) = (i \<noteq> 0)"
| "truthy (PStr s) = (s \<noteq> [])"
| "truthy (PUUID u) = True"
| "truthy (PList xs) = (xs \<noteq> [])"
| "truthy (PDict kvs) = (kvs \<noteq> [])"

text \<open>\<open>d.get(k, default)\<close> and \<open>d.update(other)\<close>\<close>

definition dict_get :: "pydict \<Rightarrow> pystr \<Rightarrow> pyval \<Rightarrow> pyval" where
  "dict_get d k dflt = (case map_of d k of Some v \<Rightarrow> v | None \<Rightarrow> dflt)"

definition dict_update :: "pydict \<Rightarrow> pydict \<Rightarrow> pydict" where
  "dict_update d other = fold (\<lambda>(k, v) acc. AList.update k v acc) other d"

text \<open>Exceptions: the class and the message that \<open>str(e)\<close> returns.\<close>

datatype error_kind =
    KeyError | ValueError | ValidationError | TypeError | JSONDecodeError | IndexError
  | AttributeError | ExternalError

datatype error = Error (kind: error_kind) (message: pystr)

definition bind_result :: "error + 'a \<Rightarrow> ('a \<Rightarrow> error + 'b) \<Rightarrow> error + 'b" where
  "bind_result r f = (case r of Inl e \<Rightarrow> Inl e | Inr x \<Rightarrow> f x)"

section \<open>Models (src/models)\<close>

subsection \<open>Intent\<close>

datatype IntentType = ARCHITECTURE_REQUEST | PRICING_QUERY | CLARIFICATION | MODIFICATION

fun IntentType_value :: "IntentType \<Rightarrow> pystr" where
  "IntentType_value ARCHITECTURE_REQUEST = ascii ''architecture_request''"
| "IntentType_value PRICING_QUERY = ascii ''pricing_query''"
| "IntentType_value CLARIFICATION = ascii ''clarification''"
| "IntentType_value MODIFICATION = ascii ''modification''"

text \<open>\<open>IntentType(value)\<close> raises \<open>ValueError\<close> for a string that is no member.\<close>

definition IntentType_of :: "pystr \<Rightarrow> error + IntentType" where
  "IntentType_of s =
     (if s = ascii ''architecture_request'' then Inr ARCHITECTURE_REQUEST
      else if s = ascii ''pricing_query'' then Inr PRICING_QUERY
      else if s = ascii ''clarification'' then Inr CLARIFICATION
      else if s = ascii ''modification'' then Inr MODIFICATION
      else Inl (Error ValueError s))"

datatype IntentStatus = PENDING | PROCESSING | COMPLETED | FAILED

record Intent =
  intent_id :: UUID
  intent_message_id :: UUID
  intent_type :: IntentType
  priority :: int
  confidence :: rat
  extracted_entities :: pydict
  status :: IntentStatus

text \<open>
  The field validator \<open>validate_priority(v, info)\<close>. Its second argument is
  \<open>info.data.get("intent_type")\<close>: the already validated category, absent when the
  category failed its own validation.
\<close>

definition validate_priority :: "int \<Rightarrow> IntentType option \<Rightarrow> int" where
  "validate_priority v info_data_intent_type =
     (case info_data_intent_type of
        Some info_intent_type \<Rightarrow>
          (let expected_priority =
                 (case map_of [(ARCHITECTURE_REQUEST, 1), (MODIFICATION, 1),
                               (PRICING_QUERY, 2), (CLARIFICATION, 3)] info_intent_type of
                    Some p \<Rightarrow> p
                  | None \<Rightarrow> 3)
           in if v \<noteq> expected_priority then expected_priority else v)
      | None \<Rightarrow> v)"

text \<open>
  Construction of an \<open>Intent\<close>. The fields are validated in declaration order;
  \<open>intent_type_in\<close> is \<open>None\<close> for an input that is no category, and the confidence
  must lie in \<open>[0, 1]\<close>. Any failed field makes the construction raise
  \<open>ValidationError\<close>. \<open>new_id\<close> is the value \<open>uuid4()\<close> supplies for \<open>intent_id\<close>.
\<close>

definition Intent_init ::
  "UUID \<Rightarrow> UUID \<Rightarrow> IntentType option \<Rightarrow> int \<Rightarrow> rat \<Rightarrow> pydict \<Rightarrow> IntentStatus
     \<Rightarrow> error + Intent" where
  "Intent_init new_id message_id_in intent_type_in priority_in confidence_in entities_in status_in =
     (let validated_priority = validate_priority priority_in intent_type_in
      in case intent_type_in of
           None \<Rightarrow> Inl (Error ValidationError (ascii ''intent_type''))
         | Some t \<Rightarrow>
             if 0 \<le> confidence_in \<and> confidence_in \<le> 1
             then Inr \<lparr>intent_id = new_id, intent_message_id = message_id_in,
                       intent_type = t, priority = validated_priority,
                       confidence = confidence_in, extracted_entities = entities_in,
                       status = status_in\<rparr>
             else Inl (Error ValidationError (ascii ''confidence'')))"

subsection \<open>UserRequirement\<close>

datatype RequirementType = APPLICATION_TYPE | SCALE | CONSTRAINT | PREFERENCE

definition RequirementType_of :: "pystr \<Rightarrow> error + RequirementType" where
  "RequirementType_of s =
     (if s = ascii ''application_type'' then Inr APPLICATION_TYPE
      else if s = ascii ''scale'' then Inr SCALE
      else if s = ascii ''constraint'' then Inr CONSTRAINT
      else if s = ascii ''preference'' then Inr PREFERENCE
      else Inl (Error ValueError s))"

record UserRequirement =
  requirement_id :: UUID
  req_session_id :: UUID
  extracted_at :: datetime
  requirement_type :: RequirementType
  requirement_value :: pystr
  req_confidence :: rat
  source_message_id :: "UUID option"

text \<open>
  Construction of a \<open>UserRequirement\<close>: \<open>session_id_in\<close> is \<open>None\<close> for an input that
  is not a UUID (such as the empty string), which fails validation.
\<close>

definition UserRequirement_init ::
  "UUID \<Rightarrow> datetime \<Rightarrow> UUID option \<Rightarrow> RequirementType \<Rightarrow> pystr \<Rightarrow> rat
     \<Rightarrow> error + UserRequirement" where
  "UserRequirement_init new_id now session_id_in requirement_type_in requirement_value_in confidence_in =
     (case session_id_in of
        None \<Rightarrow> Inl (Error ValidationError (ascii ''session_id''))
      | Some sid \<Rightarrow>
          if 0 \<le> confidence_in \<and> confidence_in \<le> 1
          then Inr \<lparr>requirement_id = new_id, req_session_id = sid, extracted_at = now,
                    requirement_type = requirement_type_in,
                    requirement_value = requirement_value_in,
                    req_confidence = confidence_in, source_message_id = None\<rparr>
          else Inl (Error ValidationError (ascii ''confidence'')))"

subsection \<open>Message, Context, Conversation\<close>

datatype MessageRole = USER | ASSISTANT

record Message =
  message_id :: UUID
  msg_session_id :: UUID
  timestamp :: datetime
  role :: MessageRole
  content :: pystr
  msg_intents :: "Intent list"
  msg_metadata :: "pydict option"

record Context =
  context_id :: UUID
  ctx_session_id :: UUID
  current_recommendation_id :: "UUID option"
  extracted_requirements :: "UserRequirement list"
  conversation_summary :: "pystr option"
  last_intents :: "Intent list option"
  updated_at :: datetime

text \<open>
  \<open>current_context\<close> holds \<open>context.model_dump(mode="json")\<close>, the JSON rendering of
  a \<open>Context\<close>; it is modelled by the \<open>Context\<close> it renders.
\<close>

record Conversation =
  session_id :: UUID
  created_at :: datetime
  last_accessed_at :: datetime
  expires_at :: datetime
  conversation_history :: "Message list"
  current_context :: "Context option"
  user_preferences :: "pydict option"

subsection \<open>Service, Configuration, ArchitectureRecommendation\<close>

datatype ServiceType = COMPUTE | STORAGE | DATABASE | NETWORKING | SECURITY | MONITORING | OTHER

record Service =
  service_id :: UUID
  svc_recommendation_id :: UUID
  aws_service_name :: pystr
  service_type :: ServiceType
  svc_role :: pystr
  region :: "pystr option"
  dependencies :: "UUID list"

record Configuration =
  configuration_id :: UUID
  cfg_service_id :: UUID
  config_type :: pystr
  config_value :: pystr
  config_details :: "pydict option"

record ArchitectureRecommendation =
  recommendation_id :: UUID
  rec_session_id :: UUID
  rec_created_at :: datetime
  services :: "Service list"
  configurations :: "Configuration list"
  diagram_data :: pystr
  diagram_url :: "pystr option"
  rec_pricing :: "pydict option"
  well_architected_alignment :: "(pystr \<times> pystr) list"
  explanation :: pystr

section \<open>Stores (src/repositories)\<close>

text \<open>
  The repositories read three tables by session identifier. A table is modelled by what
  a read returns for each session; the message table holds each session's messages most
  recent first, as the query returns them.
\<close>

record stores =
  conversations :: "UUID \<Rightarrow> Conversation option"
  messages_table :: "UUID \<Rightarrow> Message list"
  requirements_table :: "UUID \<Rightarrow> UserRequirement list"

definition conv_get_by_session_id :: "stores \<Rightarrow> UUID \<Rightarrow> Conversation option" where
  "conv_get_by_session_id st sid = conversations st sid"

text \<open>
  \<open>ConversationRepository.update\<close> builds the item with
  \<open>conversation.model_dump(mode="json")\<close>, in which every timestamp is already a string,
  and then calls \<open>.isoformat()\<close> on \<open>item["last_accessed_at"]\<close>. A \<open>str\<close> has no such
  attribute: the call raises \<open>AttributeError\<close>, and \<open>put_item\<close>, which comes after it, is
  not reached. So the method raises for every conversation and writes nothing; \<open>Inr\<close>
  would carry the table after a write.
\<close>

definition no_isoformat :: error where
  "no_isoformat =
     Error AttributeError
       ([39] @ ascii ''str'' @ [39] @ ascii '' object has no attribute ''
        @ [39] @ ascii ''isoformat'' @ [39])"

definition conv_update :: "stores \<Rightarrow> Conversation \<Rightarrow> error + stores" where
  "conv_update st conversation = Inl no_isoformat"

definition msg_get_by_session_id :: "stores \<Rightarrow> UUID \<Rightarrow> nat \<Rightarrow> Message list" where
  "msg_get_by_session_id st sid limit = take limit (messages_table st sid)"

definition req_get_by_session_id :: "stores \<Rightarrow> UUID \<Rightarrow> UserRequirement list" where
  "req_get_by_session_id st sid = requirements_table st sid"

section \<open>Context retrieval (services/conversation/context\_retriever.py)\<close>

text \<open>
  \<open>_summarize_conversation\<close>. The messages are \<open>Message\<close> models, for which
  \<open>hasattr(msg, "content")\<close> holds.
\<close>

definition summarize_conversation :: "Message list \<Rightarrow> pystr" where
  "summarize_conversation messages =
     (if messages = [] then []
      else
        let summary_parts = map (\<lambda>msg. take 100 (content msg)) (take 5 messages);
            summary = join_str (ascii '' | '') summary_parts
        in if length summary > 500 then take 497 summary @ ascii ''...'' else summary)"

text \<open>
  \<open>retrieve_context\<close>; \<open>new_id\<close> is the \<open>uuid4()\<close> value of the new \<open>Context\<close>.
  \<open>last_intents\<close> is not passed to the constructor and keeps its default \<open>None\<close>.
\<close>

definition retrieve_context :: "stores \<Rightarrow> UUID \<Rightarrow> UUID \<Rightarrow> Context option" where
  "retrieve_context st new_id sid =
     (case conv_get_by_session_id st sid of
        None \<Rightarrow> None
      | Some conversation \<Rightarrow>
          let messages = msg_get_by_session_id st sid 50;
              requirements = req_get_by_session_id st sid;
              rec_id = (case current_context conversation of
                          None \<Rightarrow> None
                        | Some blob \<Rightarrow> current_recommendation_id blob)
          in Some \<lparr>context_id = new_id, ctx_session_id = sid,
                    current_recommendation_id = rec_id,
                    extracted_requirements = requirements,
                    conversation_summary = Some (summarize_conversation messages),
                    last_intents = None,
                    updated_at = last_accessed_at conversation\<rparr>)"

section \<open>Requirement merge\<close>

text \<open>
  The loop shared by \<open>extract_requirements\<close> and \<open>update_context\<close>:
  \<^verbatim>\<open>for req in new: if req.requirement_value not in existing_values: target.append(req)\<close>
  where \<open>existing_values\<close> was computed once, before the loop.
\<close>

fun append_novel ::
  "pystr set \<Rightarrow> UserRequirement list \<Rightarrow> UserRequirement list \<Rightarrow> UserRequirement list" where
  "append_novel existing_values target [] = target"
| "append_novel existing_values target (req # reqs) =
     (if requirement_value req \<notin> existing_values
      then append_novel existing_values (target @ [req]) reqs
      else append_novel existing_values target reqs)"

section \<open>Context update (services/conversation/context\_updater.py)\<close>

text \<open>
  \<open>update_context\<close> returns the context, or the exception that left it, next to the
  stores as the call left them. \<open>ids 0\<close> is the identifier of the context built in this
  call, \<open>now\<close> the clock read for \<open>updated_at\<close>. Models are always truthy; a list or
  a string is truthy when non-empty. When the conversation record exists the context is
  handed to \<open>conversation_repo.update\<close>, whose exception is not caught.
\<close>

definition update_context ::
  "stores \<Rightarrow> (nat \<Rightarrow> UUID) \<Rightarrow> datetime \<Rightarrow> UUID \<Rightarrow> UserRequirement list option
     \<Rightarrow> Intent list option \<Rightarrow> ArchitectureRecommendation option \<Rightarrow> pystr option
     \<Rightarrow> (error + Context) \<times> stores" where
  "update_context st ids now sid new_requirements new_intents new_recommendation new_summary =
     (let existing_context = retrieve_context st (ids 0) sid;
          ctx =
            (case existing_context of
               None \<Rightarrow>
                 \<lparr>context_id = ids 0, ctx_session_id = sid,
                  current_recommendation_id =
                    (case new_recommendation of
                       Some r \<Rightarrow> Some (recommendation_id r) | None \<Rightarrow> None),
                  extracted_requirements =
                    (case new_requirements of Some rs \<Rightarrow> rs | None \<Rightarrow> []),
                  conversation_summary = new_summary,
                  last_intents = new_intents,
                  updated_at = now\<rparr>
             | Some c0 \<Rightarrow>
                 let c1 = (case new_requirements of
                             Some (r # rs) \<Rightarrow>
                               c0\<lparr>extracted_requirements :=
                                    append_novel
                                      (set (map requirement_value (extracted_requirements c0)))
                                      (extracted_requirements c0) (r # rs)\<rparr>
                           | _ \<Rightarrow> c0);
                     c2 = (case new_intents of
                             Some (i # is) \<Rightarrow> c1\<lparr>last_intents := Some (i # is)\<rparr>
                           | _ \<Rightarrow> c1);
                     c3 = (case new_recommendation of
                             Some r \<Rightarrow> c2\<lparr>current_recommendation_id := Some (recommendation_id r)\<rparr>
                           | None \<Rightarrow> c2);
                     c4 = (case new_summary of
                             Some (ch # chs) \<Rightarrow> c3\<lparr>conversation_summary := Some (ch # chs)\<rparr>
                           | _ \<Rightarrow> c3)
                 in c4\<lparr>updated_at := now\<rparr>)
      in case conv_get_by_session_id st sid of
           Some conversation \<Rightarrow>
             (case conv_update st (conversation\<lparr>current_context := Some ctx\<rparr>) of
                Inl e \<Rightarrow> (Inl e, st)
              | Inr written \<Rightarrow> (Inr ctx, written))
         | None \<Rightarrow> (Inr ctx, st))"

section \<open>Session validation (services/conversation/session\_manager.py)\<close>

text \<open>
  \<open>validate_session\<close>; \<open>now\<close> is the value of \<open>datetime.utcnow()\<close> read in the
  expiry check. A \<open>Conversation\<close> model is always truthy, so \<open>not conversation\<close> holds
  exactly for \<open>None\<close>.
\<close>

definition validate_session :: "stores \<Rightarrow> datetime \<Rightarrow> UUID \<Rightarrow> bool" where
  "validate_session st now sid =
     (case conv_get_by_session_id st sid of
        None \<Rightarrow> False
      | Some conversation \<Rightarrow>
          if expires_at conversation < now then False else True)"

definition is_session_expired :: "datetime \<Rightarrow> Conversation \<Rightarrow> bool" where
  "is_session_expired now conversation = (expires_at conversation < now)"

section \<open>Intent classification (services/intent/classifier.py)\<close>

text \<open>
  The understanding call returns JSON. Its reading is typed here: an entry of
  \<open>"intents"\<close> carries the category string, the confidence and the entities, each
  absent when the key is absent; \<open>data_intents\<close> is absent when \<open>"intents"\<close> is.
\<close>

record intent_info =
  info_intent_type :: "pystr option"
  info_confidence :: "rat option"
  info_extracted_entities :: "pydict option"

record intent_data =
  data_intents :: "intent_info list option"

text \<open>
  The classifier object. \<open>client\<close> is the remote completion call: it maps the prompt to
  the text of the first answer or to the exception it raised. The prompt text only
  reaches that call, so its construction is a field as well.
\<close>

record MultiIntentClassifier =
  llm_provider :: pystr
  client :: "pystr \<Rightarrow> error + pystr"
  build_classification_prompt :: "pystr \<Rightarrow> pydict list option \<Rightarrow> pystr"

text \<open>\<open>xs[i]\<close> for a non-negative index.\<close>

definition list_index :: "'a list \<Rightarrow> nat \<Rightarrow> error + 'a" where
  "list_index xs i = (if i < length xs then Inr (xs ! i) else Inl (Error IndexError []))"

text \<open>
  The text handed to \<open>json.loads\<close> on the Anthropic path: the inside of the first
  block fenced by three backquotes and \<open>json\<close>, else of the first block fenced by three
  backquotes, else the whole answer.
\<close>

definition fence :: pystr where
  "fence = [96, 96, 96]"

definition fence_json :: pystr where
  "fence_json = [96, 96, 96] @ ascii ''json''"

definition unfence :: "pystr \<Rightarrow> error + pystr" where
  "unfence answer =
     (if contains_str fence_json answer
      then bind_result (list_index (split_str fence_json answer) 1)
             (\<lambda>inner. bind_result (list_index (split_str fence inner) 0)
                (\<lambda>body. Inr (strip body)))
      else if contains_str fence answer
      then bind_result (list_index (split_str fence answer) 1)
             (\<lambda>inner. bind_result (list_index (split_str fence inner) 0)
                (\<lambda>body. Inr (strip body)))
      else Inr answer)"

text \<open>
  \<open>_call_llm_for_classification\<close>. \<open>json_loads\<close> is \<open>json.loads\<close> followed by the typed
  reading above; it returns the exception for text that is not JSON. Neither the call nor
  the parse is guarded, so either exception leaves the function as it is.
\<close>

definition call_llm_for_classification ::
  "MultiIntentClassifier \<Rightarrow> (pystr \<Rightarrow> error + intent_data) \<Rightarrow> pystr \<Rightarrow> error + intent_data" where
  "call_llm_for_classification self json_loads prompt =
     (if llm_provider self = ascii ''openai''
      then bind_result (client self prompt) json_loads
      else if llm_provider self = ascii ''anthropic''
      then bind_result (client self prompt)
             (\<lambda>answer. bind_result (unfence answer) json_loads)
      else Inl (Error ValueError (llm_provider self)))"

definition get_priority_for_intent_type :: "IntentType \<Rightarrow> int" where
  "get_priority_for_intent_type t =
     (case map_of [(ARCHITECTURE_REQUEST, 1), (MODIFICATION, 1),
                   (PRICING_QUERY, 2), (CLARIFICATION, 3)] t of
        Some p \<Rightarrow> p
      | None \<Rightarrow> 3)"

text \<open>
  The fixed mapping as the specification words it: 1 for architecture requests and
  modifications, 2 for pricing queries, 3 for clarifications.
\<close>

fun category_priority :: "IntentType \<Rightarrow> int" where
  "category_priority ARCHITECTURE_REQUEST = 1"
| "category_priority MODIFICATION = 1"
| "category_priority PRICING_QUERY = 2"
| "category_priority CLARIFICATION = 3"

text \<open>
  The conversion loop of \<open>classify_intents\<close>; \<open>ids k\<close> is the identifier \<open>uuid4()\<close>
  gives to the \<open>k\<close>-th intent. The first entry that raises ends the loop with its
  exception.
\<close>

fun convert_intents ::
  "(nat \<Rightarrow> UUID) \<Rightarrow> nat \<Rightarrow> UUID \<Rightarrow> intent_info list \<Rightarrow> error + Intent list" where
  "convert_intents ids k mid [] = Inr []"
| "convert_intents ids k mid (info # infos) =
     (case info_intent_type info of
        None \<Rightarrow> Inl (Error KeyError (ascii ''intent_type''))
      | Some raw \<Rightarrow>
          bind_result (IntentType_of raw)
            (\<lambda>t. bind_result
               (Intent_init (ids k) mid (Some t) (get_priority_for_intent_type t)
                  (case info_confidence info of Some c \<Rightarrow> c | None \<Rightarrow> 4 / 5)
                  (case info_extracted_entities info of Some e \<Rightarrow> e | None \<Rightarrow> [])
                  PENDING)
               (\<lambda>intent. bind_result (convert_intents ids (Suc k) mid infos)
                  (\<lambda>intents. Inr (intent # intents)))))"

text \<open>
  \<open>classify_intents\<close>. \<open>mid\<close> is the message identifier, which the caller passes as
  the string form of a UUID. \<open>list.sort\<close> is stable, as \<open>sort_key\<close> is.
\<close>

definition classify_intents ::
  "MultiIntentClassifier \<Rightarrow> (pystr \<Rightarrow> error + intent_data) \<Rightarrow> (nat \<Rightarrow> UUID) \<Rightarrow> pystr
     \<Rightarrow> UUID \<Rightarrow> pydict list option \<Rightarrow> error + Intent list" where
  "classify_intents self json_loads ids user_message mid conversation_context =
     (let prompt = build_classification_prompt self user_message conversation_context
      in bind_result (call_llm_for_classification self json_loads prompt)
           (\<lambda>data. bind_result
              (convert_intents ids 0 mid
                 (case data_intents data of Some infos \<Rightarrow> infos | None \<Rightarrow> []))
              (\<lambda>intents. Inr (sort_key priority intents))))"

section \<open>Requirement extraction (services/recommendation/requirement\_extractor.py)\<close>

text \<open>
  The typed reading of the extraction JSON. \<open>rd_session_id\<close> is the \<open>"session_id"\<close>
  entry when it is present and is a UUID; the source passes the empty string for an
  absent entry, which is no UUID either.
\<close>

record req_data =
  rd_session_id :: "UUID option"
  rd_requirement_type :: "pystr option"
  rd_requirement_value :: "pystr option"
  rd_confidence :: "rat option"

record extracted_data =
  data_requirements :: "req_data list option"

record RequirementExtractor =
  ex_llm_provider :: pystr
  ex_client :: "pystr \<Rightarrow> error + pystr"
  build_extraction_prompt :: "pystr \<Rightarrow> pydict list option \<Rightarrow> pystr"

definition call_llm_for_extraction ::
  "RequirementExtractor \<Rightarrow> (pystr \<Rightarrow> error + extracted_data) \<Rightarrow> pystr
     \<Rightarrow> error + extracted_data" where
  "call_llm_for_extraction self json_loads prompt =
     (if ex_llm_provider self = ascii ''openai''
      then bind_result (ex_client self prompt) json_loads
      else if ex_llm_provider self = ascii ''anthropic''
      then bind_result (ex_client self prompt)
             (\<lambda>answer. bind_result (unfence answer) json_loads)
      else Inl (Error ValueError (ex_llm_provider self)))"

text \<open>
  The conversion loop of \<open>extract_requirements\<close>. The arguments of the constructor are
  evaluated from left to right, so a missing or unknown category raises before a missing
  value does, and both before the model is validated.
\<close>

fun convert_requirements ::
  "(nat \<Rightarrow> UUID) \<Rightarrow> nat \<Rightarrow> datetime \<Rightarrow> req_data list \<Rightarrow> error + UserRequirement list" where
  "convert_requirements ids k now [] = Inr []"
| "convert_requirements ids k now (rd # rds) =
     (case rd_requirement_type rd of
        None \<Rightarrow> Inl (Error KeyError (ascii ''requirement_type''))
      | Some raw \<Rightarrow>
          bind_result (RequirementType_of raw)
            (\<lambda>t. case rd_requirement_value rd of
                    None \<Rightarrow> Inl (Error KeyError (ascii ''requirement_value''))
                  | Some v \<Rightarrow>
                      bind_result
                        (UserRequirement_init (ids k) now (rd_session_id rd) t v
                           (case rd_confidence rd of Some c \<Rightarrow> c | None \<Rightarrow> 4 / 5))
                        (\<lambda>requirement.
                           bind_result (convert_requirements ids (Suc k) now rds)
                             (\<lambda>requirements. Inr (requirement # requirements)))))"

text \<open>
  The merge at the end of \<open>extract_requirements\<close>: with a non-empty previous list the
  new requirements are appended to it unless their value is among its values; otherwise
  the new requirements are returned alone.
\<close>

definition merge_with_previous ::
  "UserRequirement list option \<Rightarrow> UserRequirement list \<Rightarrow> UserRequirement list" where
  "merge_with_previous previous_requirements requirements =
     (case previous_requirements of
        Some (p # ps) \<Rightarrow>
          append_novel (set (map requirement_value (p # ps))) (p # ps) requirements
      | _ \<Rightarrow> requirements)"

definition extract_requirements ::
  "RequirementExtractor \<Rightarrow> (pystr \<Rightarrow> error + extracted_data) \<Rightarrow> (nat \<Rightarrow> UUID) \<Rightarrow> datetime
     \<Rightarrow> pystr \<Rightarrow> pydict list option \<Rightarrow> UserRequirement list option
     \<Rightarrow> error + UserRequirement list" where
  "extract_requirements self json_loads ids now user_message conversation_context previous_requirements =
     (let prompt = build_extraction_prompt self user_message conversation_context
      in bind_result (call_llm_for_extraction self json_loads prompt)
           (\<lambda>data. bind_result
              (convert_requirements ids 0 now
                 (case data_requirements data of Some rds \<Rightarrow> rds | None \<Rightarrow> []))
              (\<lambda>requirements. Inr (merge_with_previous previous_requirements requirements))))"

section \<open>Example data\<close>

definition msg_of :: "pystr \<Rightarrow> Message" where
  "msg_of text_in =
     \<lparr>message_id = UUID 1, msg_session_id = UUID 2, timestamp = 0, role = USER,
      content = text_in, msg_intents = [], msg_metadata = None\<rparr>"

definition conv_expiring :: "UUID \<Rightarrow> datetime \<Rightarrow> Conversation" where
  "conv_expiring sid expiry =
     \<lparr>session_id = sid, created_at = 0, last_accessed_at = 0, expires_at = expiry,
      conversation_history = [], current_context = None, user_preferences = None\<rparr>"

definition stores_with :: "Conversation \<Rightarrow> stores" where
  "stores_with c =
     \<lparr>conversations = Map.empty(session_id c \<mapsto> c),
      messages_table = (\<lambda>sid. []), requirements_table = (\<lambda>sid. [])\<rparr>"

definition openai_classifier :: "(pystr \<Rightarrow> error + pystr) \<Rightarrow> MultiIntentClassifier" where
  "openai_classifier c =
     \<lparr>llm_provider = ascii ''openai'', client = c,
      build_classification_prompt = (\<lambda>user_message conversation_context. user_message)\<rparr>"

definition info_of :: "string \<Rightarrow> intent_info" where
  "info_of category =
     \<lparr>info_intent_type = Some (ascii category), info_confidence = None,
      info_extracted_entities = None\<rparr>"

definition three_intents :: intent_data where
  "three_intents =
     \<lparr>data_intents = Some [info_of ''clarification'', info_of ''pricing_query'',
                             info_of ''modification'']\<rparr>"

definition req_of :: "nat \<Rightarrow> RequirementType \<Rightarrow> string \<Rightarrow> UserRequirement" where
  "req_of n t v =
     \<lparr>requirement_id = UUID n, req_session_id = UUID 7, extracted_at = 0,
      requirement_type = t, requirement_value = ascii v, req_confidence = 4 / 5,
      source_message_id = None\<rparr>"

definition stores_with_reqs :: "Conversation \<Rightarrow> UserRequirement list \<Rightarrow> stores" where
  "stores_with_reqs c rs =
     \<lparr>conversations = Map.empty(session_id c \<mapsto> c),
      messages_table = (\<lambda>sid. []),
      requirements_table = (\<lambda>sid. if sid = session_id c then rs else [])\<rparr>"

definition stores_one_req :: stores where
  "stores_one_req =
     stores_with_reqs (conv_expiring (UUID 7) 100) [req_of 1 SCALE ''1000 users'']"

definition openai_extractor :: RequirementExtractor where
  "openai_extractor =
     \<lparr>ex_llm_provider = ascii ''openai'', ex_client = Inr,
      build_extraction_prompt = (\<lambda>user_message conversation_context. user_message)\<rparr>"

definition one_req_data :: "string \<Rightarrow> string \<Rightarrow> extracted_data" where
  "one_req_data category v =
     \<lparr>data_requirements =
        Some [\<lparr>rd_session_id = Some (UUID 7), rd_requirement_type = Some (ascii category),
               rd_requirement_value = Some (ascii v), rd_confidence = None\<rparr>]\<rparr>"




definition ids_from_20 :: "nat \<Rightarrow> UUID" where
  "ids_from_20 k = UUID (20 + k)"

definition json_one_constraint :: "pystr \<Rightarrow> error + extracted_data" where
  "json_one_constraint t = Inr (one_req_data ''constraint'' ''1000 users'')"

section \<open>Properties\<close>

subsection \<open>Conversation summary\<close>

text \<open>
  C8. The summary is the first 100 characters of each of the first 5 messages joined
  with \<open>" | "\<close>; when that text is longer than 500 characters it is cut to its first 497
  characters followed by \<open>"..."\<close>, which makes exactly 500. The summary is never longer
  than 500 characters, and an empty message list gives the empty summary.
\<close>

theorem summarize_conversation_cap:
  "(let joined = join_str (ascii '' | '') (map (\<lambda>m. take 100 (content m)) (take 5 ms))
    in summarize_conversation ms =
         (if length joined > 500 then take 497 joined @ ascii ''...'' else joined)
       \<and> (length joined > 500 \<longrightarrow> length (summarize_conversation ms) = 500))
   \<and> length (summarize_conversation ms) \<le> 500
   \<and> summarize_conversation [] = []"
  by (auto simp add: summarize_conversation_def Let_def ascii_def)

theorem summarize_conversation_cap_witness:
  "length (join_str (ascii '' | '')
     (map (\<lambda>m. take 100 (content m)) (take 5 (replicate 6 (msg_of (replicate 120 97)))))) > 500
   \<and> length (summarize_conversation (replicate 6 (msg_of (replicate 120 97)))) = 500"
proof -
  have big: "length (join_str (ascii '' | '')
     (map (\<lambda>m. take 100 (content m)) (take 5 (replicate 6 (msg_of (replicate 120 97)))))) > 500"
    by (simp add: msg_of_def ascii_def numeral_eq_Suc)
  with summarize_conversation_cap [of "replicate 6 (msg_of (replicate 120 97))"]
  show ?thesis
    by (simp add: Let_def ascii_def)
qed

subsection \<open>Session validation\<close>

text \<open>
  C4, as stated, fails at the boundary: a stored session whose expiry equals the current
  time is accepted, although the current time is not strictly before the expiry.
\<close>

theorem validate_session_boundary_counterexample:
  "validate_session (stores_with (conv_expiring (UUID 7) 1000)) 1000 (UUID 7)
   \<and> \<not> ((1000::int) < expires_at (conv_expiring (UUID 7) 1000))"
  by (simp add: validate_session_def conv_get_by_session_id_def stores_with_def
      conv_expiring_def)

text \<open>
  C4, amended. \<open>validate_session\<close> returns true exactly when the session exists and the
  current time is not after its expiry. A session whose expiry equals the current time is
  still valid, one second before the expiry it is valid, one second after it is not.
\<close>

theorem validate_session_iff:
  "validate_session st now sid =
     (\<exists>c. conv_get_by_session_id st sid = Some c \<and> now \<le> expires_at c)"
  by (auto simp add: validate_session_def split: option.splits)

theorem validate_session_iff_witness:
  "validate_session (stores_with (conv_expiring (UUID 7) 5000000)) 5000000 (UUID 7)
   \<and> validate_session (stores_with (conv_expiring (UUID 7) 5000000)) (5000000 - one_second) (UUID 7)
   \<and> \<not> validate_session (stores_with (conv_expiring (UUID 7) 5000000)) (5000000 + one_second) (UUID 7)
   \<and> \<not> validate_session (stores_with (conv_expiring (UUID 7) 5000000)) 0 (UUID 8)"
  using validate_session_iff [of "stores_with (conv_expiring (UUID 7) 5000000)" 5000000 "UUID 7"]
  by (simp add: validate_session_def conv_get_by_session_id_def stores_with_def
      conv_expiring_def one_second_def)

subsection \<open>Results as sums\<close>

lemma bind_result_simps:
  "bind_result (Inr x) f = f x"
  "bind_result (Inl e) f = Inl e"
  by (simp_all add: bind_result_def)

lemma bind_result_eq_Inr:
  "(bind_result r f = Inr y) = (\<exists>x. r = Inr x \<and> f x = Inr y)"
  by (cases r) (simp_all add: bind_result_def)

subsection \<open>Intent classification: order and priorities\<close>

lemma validate_priority_Some:
  "validate_priority v (Some t) = category_priority t"
  by (cases t) (simp_all add: validate_priority_def)

lemma Intent_init_priority:
  "Intent_init new_id m t_in p_in c e st = Inr i \<Longrightarrow>
   priority i = category_priority (intent_type i)"
  by (auto simp add: Intent_init_def validate_priority_Some Let_def
      split: option.splits if_splits)

lemma convert_intents_priority:
  "convert_intents ids k mid infos = Inr intents \<Longrightarrow>
   \<forall>i \<in> set intents. priority i = category_priority (intent_type i)"
proof (induction infos arbitrary: k intents)
  case Nil
  then show ?case by simp
next
  case (Cons info infos)
  from Cons.prems obtain i rest
    where rest: "convert_intents ids (Suc k) mid infos = Inr rest"
    and eq: "intents = i # rest"
    and pr: "priority i = category_priority (intent_type i)"
    by (auto simp add: bind_result_eq_Inr split: option.splits dest: Intent_init_priority)
  from Cons.IH [OF rest] pr eq show ?case
    by simp
qed

text \<open>
  C1. Whenever \<open>classify_intents\<close> returns a list, the list is sorted ascending by
  priority and every intent in it has the priority of its category (1 for architecture
  requests and modifications, 2 for pricing queries, 3 for clarifications); and every
  \<open>Intent\<close> that is constructed has the priority of its category, whatever priority was
  supplied to the constructor.
\<close>

theorem classify_intents_sorted_priority:
  "(classify_intents self json_loads ids user_message mid conversation_context = Inr intents
      \<longrightarrow> sorted (map priority intents)
          \<and> (\<forall>i \<in> set intents. priority i = category_priority (intent_type i)))
   \<and> (Intent_init new_id m t_in p_in c e st = Inr intent
      \<longrightarrow> priority intent = category_priority (intent_type intent))"
proof (intro conjI impI)
  assume "classify_intents self json_loads ids user_message mid conversation_context = Inr intents"
  then have "\<exists>xs infos. convert_intents ids 0 mid infos = Inr xs
                 \<and> intents = sort_key priority xs"
    by (auto simp add: classify_intents_def Let_def bind_result_eq_Inr)
  then obtain xs infos
    where conv: "convert_intents ids 0 mid infos = Inr xs"
    and srt: "intents = sort_key priority xs"
    by blast
  from srt show "sorted (map priority intents)"
    by simp
  from convert_intents_priority [OF conv] srt
  show "\<forall>i \<in> set intents. priority i = category_priority (intent_type i)"
    by simp
next
  assume "Intent_init new_id m t_in p_in c e st = Inr intent"
  then show "priority intent = category_priority (intent_type intent)"
    by (rule Intent_init_priority)
qed

theorem classify_intents_sorted_priority_witness:
  "map intent_type
     (projr (classify_intents (openai_classifier Inr) (\<lambda>t. Inr three_intents) UUID []
        (UUID 9) None))
     = [MODIFICATION, PRICING_QUERY, CLARIFICATION]
   \<and> map priority
     (projr (classify_intents (openai_classifier Inr) (\<lambda>t. Inr three_intents) UUID []
        (UUID 9) None))
     = [1, 2, 3]
   \<and> sorted (map priority
     (projr (classify_intents (openai_classifier Inr) (\<lambda>t. Inr three_intents) UUID []
        (UUID 9) None)))
   \<and> priority (projr (Intent_init (UUID 1) (UUID 2) (Some PRICING_QUERY) 7 (1 / 2) [] PENDING))
     = 2"
  using classify_intents_sorted_priority
    [where self = "openai_classifier Inr" and json_loads = "\<lambda>t. Inr three_intents"
       and ids = UUID and user_message = "[]" and mid = "UUID 9"
       and conversation_context = None
       and intents = "projr (classify_intents (openai_classifier Inr)
                        (\<lambda>t. Inr three_intents) UUID [] (UUID 9) None)"
       and new_id = "UUID 1" and m = "UUID 2" and t_in = "Some PRICING_QUERY"
       and p_in = 7 and c = "1 / 2" and e = "[]" and st = PENDING
       and intent = "projr (Intent_init (UUID 1) (UUID 2) (Some PRICING_QUERY) 7 (1 / 2)
                        [] PENDING)"]
  by (simp add: classify_intents_def openai_classifier_def three_intents_def info_of_def
      call_llm_for_classification_def bind_result_simps IntentType_of_def ascii_def
      Intent_init_def validate_priority_def get_priority_for_intent_type_def Let_def)

subsection \<open>Intent classification: failures\<close>




subsection \<open>Context update\<close>

lemma update_context_existing:
  "conv_get_by_session_id st sid = Some conversation \<Longrightarrow>
   update_context st ids now sid nr ni nrec ns = (Inl no_isoformat, st)"
  by (simp add: update_context_def Let_def conv_update_def)

lemma update_context_stores:
  "snd (update_context st ids now sid nr ni nrec ns) = st"
  by (simp add: update_context_def Let_def conv_update_def split: option.splits)

text \<open>
  C2 at a session whose conversation record exists. \<open>extract_requirements\<close> returns the
  prior list unchanged for a new requirement with a known value, as the claim says.
  \<open>update_context\<close>, handed one new requirement with a new value, returns no merged
  list: the exception of \<open>ConversationRepository.update\<close> leaves it, and the stores are
  as before.
\<close>

theorem update_context_merge_raises:
  "extract_requirements openai_extractor json_one_constraint ids_from_20 0 [] None
       (Some [req_of 1 SCALE ''1000 users''])
     = Inr [req_of 1 SCALE ''1000 users'']
   \<and> update_context stores_one_req UUID 5 (UUID 7)
       (Some [req_of 3 SCALE ''10000 users'']) None None None
     = (Inl no_isoformat, stores_one_req)"
proof
  show "extract_requirements openai_extractor json_one_constraint ids_from_20 0 [] None
       (Some [req_of 1 SCALE ''1000 users''])
     = Inr [req_of 1 SCALE ''1000 users'']"
    by (simp add: extract_requirements_def call_llm_for_extraction_def openai_extractor_def
        json_one_constraint_def one_req_data_def bind_result_simps RequirementType_of_def
        UserRequirement_init_def merge_with_previous_def req_of_def ids_from_20_def
        ascii_def Let_def)
next
  have "conv_get_by_session_id stores_one_req (UUID 7) = Some (conv_expiring (UUID 7) 100)"
    by (simp add: conv_get_by_session_id_def stores_one_req_def stores_with_reqs_def
        conv_expiring_def)
  then show "update_context stores_one_req UUID 5 (UUID 7)
       (Some [req_of 3 SCALE ''10000 users'']) None None None
     = (Inl no_isoformat, stores_one_req)"
    by (rule update_context_existing)
qed


text \<open>
  C10 at a session whose conversation record exists and whose Requirement Store holds one
  requirement. \<open>update_context\<close> with a new requirement ends with the exception of
  \<open>ConversationRepository.update\<close>: afterwards \<open>current_context\<close> of the record is still
  empty and the Requirement Store holds what it held. A retrieval after the update
  returns the Requirement Store's one requirement, without the new one.
\<close>

theorem update_context_persists_nothing:
  "fst (update_context stores_one_req UUID 5 (UUID 7)
          (Some [req_of 3 SCALE ''10000 users'']) None None None)
     = Inl no_isoformat
   \<and> map_option current_context
       (conv_get_by_session_id
          (snd (update_context stores_one_req UUID 5 (UUID 7)
                  (Some [req_of 3 SCALE ''10000 users'']) None None None))
          (UUID 7))
     = Some None
   \<and> req_get_by_session_id
       (snd (update_context stores_one_req UUID 5 (UUID 7)
               (Some [req_of 3 SCALE ''10000 users'']) None None None))
       (UUID 7)
     = [req_of 1 SCALE ''1000 users'']
   \<and> map_option extracted_requirements
       (retrieve_context
          (snd (update_context stores_one_req UUID 5 (UUID 7)
                  (Some [req_of 3 SCALE ''10000 users'']) None None None))
          (UUID 8) (UUID 7))
     = Some [req_of 1 SCALE ''1000 users'']"
proof -
  have ex: "conv_get_by_session_id stores_one_req (UUID 7) = Some (conv_expiring (UUID 7) 100)"
    by (simp add: conv_get_by_session_id_def stores_one_req_def stores_with_reqs_def
        conv_expiring_def)
  have rq: "req_get_by_session_id stores_one_req (UUID 7) = [req_of 1 SCALE ''1000 users'']"
    by (simp add: req_get_by_session_id_def stores_one_req_def stores_with_reqs_def
        conv_expiring_def)
  show ?thesis
    by (simp add: update_context_existing [OF ex] ex rq retrieve_context_def Let_def
        conv_expiring_def)
qed

end
